theory Spec2Isabelle
  imports Main "HOL-Library.Word"
begin

section \<open>Shallow embedding of random_number_2025.py\<close>

text \<open>
  The module \<^verbatim>\<open>random_number_2025.py\<close> offers three generators on the class
  \<^verbatim>\<open>RandomNumberGenerator\<close>: \<^verbatim>\<open>entropy_pool\<close>, \<^verbatim>\<open>crypto_api\<close> and \<^verbatim>\<open>rdrand\<close>.
  Python integers are unbounded, so \<^verbatim>\<open>lo\<close>, \<^verbatim>\<open>hi\<close> and every mapped value are
  \<^typ>\<open>int\<close>.  Every \<^verbatim>\<open>raise\<close> is a value \<open>Inl e\<close>.  The calls a generator makes
  into the operating system are recorded, in order, in a list of events that is
  returned next to the result; what those calls answer is read from a record
  describing the host.
\<close>

subsection \<open>Exceptions\<close>

datatype error =
    OSError string
  | ValueError string
  | RuntimeError string
  | ZeroDivisionError string
  | AttributeError string
  | StructError string

subsection \<open>Calls into the operating system\<close>

datatype event =
    Call_urandom nat
  | Call_IsProcessorFeaturePresent nat
  | Call_CryptAcquireContextW
  | Call_GetLastError
  | Call_CryptGenRandom
  | Call_CryptReleaseContext
  | Call_VirtualAlloc nat
  | Call_memmove
  | Call_rdrand_step
  | Call_log_error
  | Call_print

text \<open>
  The host: what \<^verbatim>\<open>platform.system()\<close> returns, the native byte order that
  \<^verbatim>\<open>struct.unpack("Q", ...)\<close> uses, and the answer of each foreign call.
  \<^item> \<open>os_urandom h\<close> is what \<^verbatim>\<open>os.urandom(8)\<close> returns, or the exception it raises;
  \<^item> \<open>IsProcessorFeaturePresent h n\<close>, \<open>CryptAcquireContextW h\<close> and
    \<open>GetLastError h\<close> are the integers that ctypes hands back;
  \<^item> \<open>CryptGenRandom h\<close> is the returned integer and the buffer after the call;
  \<^item> \<open>VirtualAlloc h n\<close> is the address returned by the \<open>n\<close>-th allocation of a
    call (counted from 0), with 0 for a failed allocation;
  \<^item> \<open>rdrand_stub h n\<close> is the outcome of the \<open>n\<close>-th invocation (counted from
    0) of the machine-code stub during a call: its boolean result and the value it
    leaves in the 64-bit output slot;
  \<^item> \<open>amd_rdrand h n\<close> is the same for the stub of the archived module, whose
    result is a C int.
  \<^verbatim>\<open>ctypes.windll\<close> exists exactly on the hosts where \<^verbatim>\<open>platform.system()\<close> is
  \<^verbatim>\<open>"Windows"\<close>.
\<close>

record host =
  platform_system :: string
  little_endian :: bool
  os_urandom :: "error + 8 word list"
  IsProcessorFeaturePresent :: "nat \<Rightarrow> int"
  CryptAcquireContextW :: int
  GetLastError :: int
  CryptGenRandom :: "int \<times> 8 word list"
  VirtualAlloc :: "nat \<Rightarrow> int"
  rdrand_stub :: "nat \<Rightarrow> bool \<times> 64 word"
  amd_rdrand :: "nat \<Rightarrow> int \<times> 64 word"

subsection \<open>Formatting and unpacking\<close>

definition hex_digit :: "nat \<Rightarrow> char" where
  "hex_digit d = ''0123456789ABCDEF'' ! d"

fun hex_digits :: "nat \<Rightarrow> string" where
  "hex_digits n =
     (if n < 16 then [hex_digit n] else hex_digits (n div 16) @ [hex_digit (n mod 16)])"

text \<open>Python's format specification \<^verbatim>\<open>08X\<close>: upper-case hexadecimal, padded with
  zeros after the sign to a total width of 8.\<close>

definition format_08X :: "int \<Rightarrow> string" where
  "format_08X x =
     (let sign = (if x < 0 then ''-'' else '''');
          ds = hex_digits (nat \<bar>x\<bar>)
      in sign @ replicate (8 - length sign - length ds) (CHR ''0'') @ ds)"

definition dec_digit :: "nat \<Rightarrow> char" where
  "dec_digit d = ''0123456789'' ! d"

fun dec_digits :: "nat \<Rightarrow> string" where
  "dec_digits n =
     (if n < 10 then [dec_digit n] else dec_digits (n div 10) @ [dec_digit (n mod 10)])"

text \<open>Python's \<^verbatim>\<open>str\<close> of an integer, as an f-string prints it.\<close>

definition str_int :: "int \<Rightarrow> string" where
  "str_int x = (if x < 0 then ''-'' else '''') @ dec_digits (nat \<bar>x\<bar>)"

text \<open>\<^verbatim>\<open>int.from_bytes(bs, 'big')\<close>.\<close>

definition from_bytes_big :: "8 word list \<Rightarrow> int" where
  "from_bytes_big bs = foldl (\<lambda>acc b. acc * 256 + uint b) 0 bs"

text \<open>\<^verbatim>\<open>struct.unpack("Q", bs)[0]\<close>: eight bytes in native order; any other length
  raises \<^verbatim>\<open>struct.error\<close>.\<close>

definition unpack_Q :: "host \<Rightarrow> 8 word list \<Rightarrow> error + int" where
  "unpack_Q h bs =
     (if length bs \<noteq> 8 then Inl (StructError ''unpack requires a buffer of 8 bytes'')
      else Inr (from_bytes_big (if little_endian h then rev bs else bs)))"

subsection \<open>Internals: \<^verbatim>\<open>_check_range\<close>, \<^verbatim>\<open>_map\<close>, \<^verbatim>\<open>_make_rdrand_asm\<close>\<close>

definition check_range :: "int \<Rightarrow> int \<Rightarrow> error + unit" where
  "check_range lo hi = (if lo \<ge> hi then Inl (ValueError ''min must be < max'') else Inr ())"

text \<open>\<^verbatim>\<open>lo + (v % (hi - lo + 1))\<close>.  Python's \<^verbatim>\<open>%\<close> takes the sign of the divisor, as
  \<open>mod\<close> on \<^typ>\<open>int\<close> does, and raises on a zero divisor.\<close>

definition map_range :: "int \<Rightarrow> int \<Rightarrow> int \<Rightarrow> error + int" where
  "map_range v lo hi =
     (if hi - lo + 1 = 0 then Inl (ZeroDivisionError ''integer modulo by zero'')
      else Inr (lo + (v mod (hi - lo + 1))))"

definition PF_RDRAND_AVAILABLE :: nat where
  "PF_RDRAND_AVAILABLE = 33"

text \<open>
  The source line is \<^verbatim>\<open>_PF_RDRAND_AVAILABLE = 33  # PF_RDRAND_INSTRUCTION_AVAILABLE\<close>.
  The flag named in its comment is declared in the Windows SDK header \<^verbatim>\<open>winnt.h\<close>,
  which is not code of the repository.  There the indices passed to
  \<^verbatim>\<open>IsProcessorFeaturePresent\<close> are 28 for the RDRAND instruction and 33 for the
  RDPID instruction.
\<close>

definition PF_RDRAND_INSTRUCTION_AVAILABLE :: nat where
  "PF_RDRAND_INSTRUCTION_AVAILABLE = 28"

definition PF_RDPID_INSTRUCTION_AVAILABLE :: nat where
  "PF_RDPID_INSTRUCTION_AVAILABLE = 33"

definition rdrand_code :: "8 word list" where
  "rdrand_code = [0x48, 0x31, 0xC0, 0x0F, 0xC7, 0xF0, 0x48, 0x89, 0x01, 0x0F, 0x92, 0xC0, 0xC3]"

definition make_rdrand_asm :: "host \<Rightarrow> event list \<times> (error + (nat \<Rightarrow> bool \<times> 64 word))" where
  "make_rdrand_asm h =
     (let size = length rdrand_code;
          addr = VirtualAlloc h 0
      in if addr = 0 then ([Call_VirtualAlloc size], Inl (OSError ''VirtualAlloc failed''))
         else ([Call_VirtualAlloc size, Call_memmove], Inr (rdrand_stub h)))"

subsection \<open>Capability tests\<close>

definition supports_entropy :: "host \<Rightarrow> bool" where
  "supports_entropy h = True"

definition supports_crypto_api :: "host \<Rightarrow> bool" where
  "supports_crypto_api h = (platform_system h = ''Windows'')"

definition supports_rdrand :: "host \<Rightarrow> event list \<times> bool" where
  "supports_rdrand h =
     (if platform_system h \<noteq> ''Windows'' then ([], False)
      else ([Call_IsProcessorFeaturePresent PF_RDRAND_AVAILABLE],
            IsProcessorFeaturePresent h PF_RDRAND_AVAILABLE \<noteq> 0))"

subsection \<open>Public generators\<close>

definition entropy_pool :: "host \<Rightarrow> int \<Rightarrow> int \<Rightarrow> event list \<times> (error + int)" where
  "entropy_pool h lo hi =
     (case check_range lo hi of
        Inl e \<Rightarrow> ([], Inl e)
      | Inr _ \<Rightarrow>
         (case os_urandom h of
            Inl e \<Rightarrow> ([Call_urandom 8], Inl e)
          | Inr bs \<Rightarrow>
             (case unpack_Q h bs of
                Inl e \<Rightarrow> ([Call_urandom 8], Inl e)
              | Inr rand64 \<Rightarrow> ([Call_urandom 8], map_range rand64 lo hi))))"

text \<open>The non-breaking hyphen (U+2011) of the message \<^verbatim>\<open>"CryptGenRandom is
  Windows-only"\<close>, in UTF-8.\<close>

definition nb_hyphen :: string where
  "nb_hyphen = [CHR 0xE2, CHR 0x80, CHR 0x91]"

text \<open>The body of the \<^verbatim>\<open>try\<close> block of \<^verbatim>\<open>crypto_api\<close>.\<close>

definition crypto_api_try :: "host \<Rightarrow> event list \<times> (error + int)" where
  "crypto_api_try h =
     (if fst (CryptGenRandom h) = 0
      then ([Call_CryptGenRandom, Call_GetLastError],
            Inl (OSError (''CryptGenRandom failed (0x'' @ format_08X (GetLastError h) @ '')'')))
      else (case unpack_Q h (snd (CryptGenRandom h)) of
              Inl e \<Rightarrow> ([Call_CryptGenRandom], Inl e)
            | Inr rand64 \<Rightarrow> ([Call_CryptGenRandom], Inr rand64)))"

definition crypto_api :: "host \<Rightarrow> int \<Rightarrow> int \<Rightarrow> event list \<times> (error + int)" where
  "crypto_api h lo hi =
     (if platform_system h \<noteq> ''Windows''
      then ([], Inl (OSError (''CryptGenRandom is Windows'' @ nb_hyphen @ ''only'')))
      else
       (case check_range lo hi of
          Inl e \<Rightarrow> ([], Inl e)
        | Inr _ \<Rightarrow>
           (if CryptAcquireContextW h = 0
            then ([Call_CryptAcquireContextW, Call_GetLastError],
                  Inl (OSError (''CryptAcquireContextW failed (0x''
                                 @ format_08X (GetLastError h) @ '')'')))
            else
             (case crypto_api_try h of
                (t, Inl e) \<Rightarrow>
                  (Call_CryptAcquireContextW # t @ [Call_CryptReleaseContext], Inl e)
              | (t, Inr rand64) \<Rightarrow>
                  (Call_CryptAcquireContextW # t @ [Call_CryptReleaseContext],
                   map_range rand64 lo hi)))))"

text \<open>The retry loop of \<^verbatim>\<open>rdrand\<close>: \<open>rdrand_loop step lo hi i n\<close> runs the \<open>n\<close>
  remaining iterations of \<^verbatim>\<open>for _ in range(retries)\<close>, the next invocation of the
  stub being number \<open>i\<close>, and raises when the iterations are used up.\<close>

fun rdrand_loop ::
  "(nat \<Rightarrow> bool \<times> 64 word) \<Rightarrow> int \<Rightarrow> int \<Rightarrow> nat \<Rightarrow> nat \<Rightarrow> event list \<times> (error + int)" where
  "rdrand_loop step lo hi i 0 = ([], Inl (RuntimeError ''RDRAND returned CF=0 ten times''))"
| "rdrand_loop step lo hi i (Suc n) =
     (if fst (step i) then ([Call_rdrand_step], map_range (uint (snd (step i))) lo hi)
      else (case rdrand_loop step lo hi (Suc i) n of (t, r) \<Rightarrow> (Call_rdrand_step # t, r)))"

definition rdrand :: "host \<Rightarrow> int \<Rightarrow> int \<Rightarrow> event list \<times> (error + int)" where
  "rdrand h lo hi =
     (case supports_rdrand h of
        (t0, supported) \<Rightarrow>
          if \<not> supported then (t0, Inl (OSError ''RDRAND not supported on this CPU/OS''))
          else
           (case check_range lo hi of
              Inl e \<Rightarrow> (t0, Inl e)
            | Inr _ \<Rightarrow>
               (case make_rdrand_asm h of
                  (t1, Inl e) \<Rightarrow> (t0 @ t1, Inl e)
                | (t1, Inr rdrand64_step) \<Rightarrow>
                   (let retries = 10
                    in case rdrand_loop rdrand64_step lo hi 0 retries of
                         (t2, r) \<Rightarrow> (t0 @ t1 @ t2, r)))))"

section \<open>Shallow embedding of archive/random_number_2024.py\<close>

text \<open>
  The archived module has no range mapper of its own: every generator writes
  \<^verbatim>\<open>min_value + (x % (max_value - min_value + 1))\<close> in line, which is the
  expression of \<^verbatim>\<open>_map\<close>, so the model uses \<^const>\<open>map_range\<close> for it.  A generator
  that ends without \<^verbatim>\<open>return\<close>, or returns \<^verbatim>\<open>None\<close>, yields \<open>None\<close>; a returned
  integer \<open>v\<close> is \<open>Some v\<close>.  \<^verbatim>\<open>except Exception\<close> catches every \<^typ>\<open>error\<close>.
\<close>

definition SECRNG_SUCCESS :: int where
  "SECRNG_SUCCESS = 0"

text \<open>What reading \<^verbatim>\<open>ctypes.windll\<close> raises where it does not exist.\<close>

definition no_windll :: error where
  "no_windll =
     AttributeError (''module '' @ [CHR 0x27] @ ''ctypes'' @ [CHR 0x27]
                     @ '' has no attribute '' @ [CHR 0x27] @ ''windll'' @ [CHR 0x27])"

text \<open>\<^verbatim>\<open>RandomNumberGenerator.generate_crypto_hardware_random\<close>.\<close>

definition rng2024_generate_crypto_hardware_random ::
  "host \<Rightarrow> int \<Rightarrow> int \<Rightarrow> event list \<times> (error + int option)" where
  "rng2024_generate_crypto_hardware_random h min_value max_value =
     (case (case os_urandom h of
              Inl e \<Rightarrow> Inl e
            | Inr random_bytes \<Rightarrow>
               (case unpack_Q h random_bytes of
                  Inl e \<Rightarrow> Inl e
                | Inr random_long \<Rightarrow> map_range random_long min_value max_value)) of
        Inr v \<Rightarrow> ([Call_urandom 8], Inr (Some v))
      | Inl e \<Rightarrow> ([Call_urandom 8, Call_print], Inr None))"

text \<open>\<^verbatim>\<open>RandomNumberGeneratorGUI.generate_crypto_hardware_random\<close>.\<close>

definition gui2024_generate_crypto_hardware_random ::
  "host \<Rightarrow> int \<Rightarrow> int \<Rightarrow> event list \<times> (error + int option)" where
  "gui2024_generate_crypto_hardware_random h min_value max_value =
     (if platform_system h \<noteq> ''Windows'' then ([], Inl no_windll)
      else if CryptAcquireContextW h \<noteq> 0 then
        (if fst (CryptGenRandom h) \<noteq> 0 then
           (let random_number = from_bytes_big (snd (CryptGenRandom h))
            in ([Call_CryptAcquireContextW, Call_CryptGenRandom, Call_CryptReleaseContext],
                Inr None))
         else
           (let error_code = GetLastError h
            in ([Call_CryptAcquireContextW, Call_CryptGenRandom, Call_GetLastError,
                 Call_CryptReleaseContext],
                Inl (OSError (''Failed to generate random number on Windows, error code: ''
                              @ str_int error_code)))))
      else
        (let error_code = GetLastError h
         in ([Call_CryptAcquireContextW, Call_GetLastError],
             Inl (OSError (''Failed to acquire cryptographic context on Windows, error code: ''
                           @ str_int error_code)))))"

text \<open>\<^verbatim>\<open>RandomNumberGeneratorGUI.setup_asm_function\<close>, for the \<open>n\<close>-th allocation of a
  call; \<open>func\<close> is what calling the installed code does.\<close>

definition gui2024_setup_asm_function ::
  "host \<Rightarrow> 8 word list \<Rightarrow> 'f \<Rightarrow> nat \<Rightarrow> event list \<times> (error + 'f)" where
  "gui2024_setup_asm_function h asm_code func n =
     (if platform_system h \<noteq> ''Windows'' then ([], Inl no_windll)
      else
       (let size = length asm_code;
            addr = VirtualAlloc h n
        in if addr = 0 then ([Call_VirtualAlloc size], Inl (OSError ''Failed to allocate memory''))
           else ([Call_VirtualAlloc size, Call_memmove], Inr func)))"

definition amd_code :: "8 word list" where
  "amd_code = [0x48, 0x31, 0xC0, 0x0F, 0xC7, 0xF0, 0x74, 0x03, 0xB0, 0x01, 0xC3, 0x31, 0xC0, 0xC3]"

text \<open>The local function \<^verbatim>\<open>get_rdrand64u\<close> of \<^verbatim>\<open>generate_amd_hardware_random\<close>, on
  its \<open>n\<close>-th call: the stub's result and the value of \<^verbatim>\<open>rng64\<close> after it.\<close>

definition get_rdrand64u :: "host \<Rightarrow> nat \<Rightarrow> event list \<times> (error + int \<times> 64 word)" where
  "get_rdrand64u h n =
     (case gui2024_setup_asm_function h amd_code (amd_rdrand h n) n of
        (t, Inl e) \<Rightarrow> (t, Inl e)
      | (t, Inr rdrand_func) \<Rightarrow> (t @ [Call_rdrand_step], Inr rdrand_func))"

text \<open>One RDRAND attempt of \<^verbatim>\<open>generate_amd_hardware_random\<close>: the body of its first
  \<^verbatim>\<open>try\<close> block, which is also the code after its second one.\<close>

definition amd_attempt :: "host \<Rightarrow> int \<Rightarrow> int \<Rightarrow> nat \<Rightarrow> event list \<times> (error + int)" where
  "amd_attempt h min_value max_value n =
     (case get_rdrand64u h n of
        (t, Inl e) \<Rightarrow> (t, Inl e)
      | (t, Inr (ret, rng64)) \<Rightarrow>
          if ret \<noteq> SECRNG_SUCCESS then (t, Inl (RuntimeError ''AMD RDRAND instruction failed''))
          else (t, map_range (uint rng64) min_value max_value))"

text \<open>The second \<^verbatim>\<open>try\<close> block: \<^verbatim>\<open>CryptGenRandom\<close> on a null provider handle, its
  result ignored.\<close>

definition amd_crypt_fallback :: "host \<Rightarrow> int \<Rightarrow> int \<Rightarrow> event list \<times> (error + int)" where
  "amd_crypt_fallback h min_value max_value =
     (if platform_system h \<noteq> ''Windows'' then ([], Inl no_windll)
      else
       (case unpack_Q h (snd (CryptGenRandom h)) of
          Inl e \<Rightarrow> ([Call_CryptGenRandom], Inl e)
        | Inr random_long \<Rightarrow> ([Call_CryptGenRandom], map_range random_long min_value max_value)))"

text \<open>\<^verbatim>\<open>RandomNumberGeneratorGUI.generate_amd_hardware_random\<close>.\<close>

definition gui2024_generate_amd_hardware_random ::
  "host \<Rightarrow> int \<Rightarrow> int \<Rightarrow> event list \<times> (error + int option)" where
  "gui2024_generate_amd_hardware_random h min_value max_value =
     (case amd_attempt h min_value max_value 0 of
        (t0, Inr v) \<Rightarrow> (t0, Inr (Some v))
      | (t0, Inl e) \<Rightarrow>
         (case amd_crypt_fallback h min_value max_value of
            (t1, Inr v) \<Rightarrow> (t0 @ [Call_log_error] @ t1, Inr (Some v))
          | (t1, Inl e') \<Rightarrow>
             (case amd_attempt h min_value max_value 1 of
                (t2, Inr v) \<Rightarrow> (t0 @ [Call_log_error] @ t1 @ [Call_log_error] @ t2, Inr (Some v))
              | (t2, Inl e'') \<Rightarrow>
                  (t0 @ [Call_log_error] @ t1 @ [Call_log_error] @ t2, Inl e''))))"

section \<open>Example hosts\<close>

text \<open>A Windows host on which every call succeeds and RDRAND succeeds at its
  seventh attempt, and variations of it.\<close>

definition windows_host :: host where
  "windows_host =
     \<lparr> platform_system = ''Windows'', little_endian = True,
       os_urandom = Inr [1, 2, 3, 4, 5, 6, 7, 8],
       IsProcessorFeaturePresent = (\<lambda>n. 1),
       CryptAcquireContextW = 1, GetLastError = 0,
       CryptGenRandom = (1, [9, 0, 0, 0, 0, 0, 0, 0]),
       VirtualAlloc = (\<lambda>n. 65536),
       rdrand_stub = (\<lambda>n. (n = 6, 1000 + of_nat n)),
       amd_rdrand = (\<lambda>n. (1, 0)) \<rparr>"

definition linux_host :: host where
  "linux_host =
     windows_host \<lparr> platform_system := ''Linux'', IsProcessorFeaturePresent := (\<lambda>n. 0) \<rparr>"

definition no_context_host :: host where
  "no_context_host = windows_host \<lparr> CryptAcquireContextW := 0, GetLastError := 5 \<rparr>"

definition no_random_host :: host where
  "no_random_host =
     windows_host \<lparr> CryptGenRandom := (0, [0, 0, 0, 0, 0, 0, 0, 0]), GetLastError := 87 \<rparr>"

definition no_alloc_host :: host where
  "no_alloc_host = windows_host \<lparr> VirtualAlloc := (\<lambda>n. 0) \<rparr>"

definition busy_rdrand_host :: host where
  "busy_rdrand_host = windows_host \<lparr> rdrand_stub := (\<lambda>n. (False, 0)) \<rparr>"

definition no_urandom_host :: host where
  "no_urandom_host = linux_host \<lparr> os_urandom := Inl (OSError ''urandom unavailable'') \<rparr>"

text \<open>A Windows host whose processor has RDRAND and lacks RDPID.\<close>

definition rdrand_only_host :: host where
  "rdrand_only_host =
     windows_host \<lparr> IsProcessorFeaturePresent :=
       (\<lambda>n. if n = PF_RDRAND_INSTRUCTION_AVAILABLE then 1 else 0) \<rparr>"

section \<open>Properties\<close>

subsection \<open>Range mapping\<close>

lemma map_range_in_range:
  assumes "lo < hi"
  shows "map_range v lo hi = Inr (lo + v mod (hi - lo + 1))"
    and "lo \<le> lo + v mod (hi - lo + 1)"
    and "lo + v mod (hi - lo + 1) \<le> hi"
proof -
  from assms have pos: "0 < hi - lo + 1" by simp
  then show "map_range v lo hi = Inr (lo + v mod (hi - lo + 1))"
    by (simp add: map_range_def)
  from pos have "0 \<le> v mod (hi - lo + 1)" by (rule pos_mod_sign)
  then show "lo \<le> lo + v mod (hi - lo + 1)" by simp
  from pos have "v mod (hi - lo + 1) < hi - lo + 1" by (rule pos_mod_bound)
  then show "lo + v mod (hi - lo + 1) \<le> hi" by simp
qed

text \<open>
  C1.  For every \<open>lo < hi\<close> and every raw value in \<open>[0, 2^64)\<close> the range mapper
  returns exactly \<open>lo + (raw mod (hi - lo + 1))\<close>, and that result lies in
  \<open>[lo, hi]\<close>; in particular \<open>map(0, 1, 100) = 1\<close> and
  \<open>map(2^64 - 1, 1, 100) = 1 + ((2^64 - 1) mod 100)\<close>.
\<close>

theorem C1_map_range:
  "(lo < hi \<and> 0 \<le> raw \<and> raw < 2 ^ 64 \<longrightarrow>
      map_range raw lo hi = Inr (lo + raw mod (hi - lo + 1))
      \<and> lo \<le> lo + raw mod (hi - lo + 1) \<and> lo + raw mod (hi - lo + 1) \<le> hi)
   \<and> map_range 0 1 100 = Inr 1
   \<and> map_range (2 ^ 64 - 1) 1 100 = Inr (1 + ((2 ^ 64 - 1) mod 100))"
proof -
  have ex: "map_range 0 1 100 = Inr 1"
    "map_range (2 ^ 64 - 1) 1 100 = Inr (1 + ((2 ^ 64 - 1) mod 100))"
    by (simp_all add: map_range_def)
  show ?thesis
    using map_range_in_range [of lo hi raw] ex by blast
qed

theorem C1_map_range_witness:
  "((1::int) < 6 \<and> (0::int) \<le> 20 \<and> (20::int) < 2 ^ 64)
   \<and> map_range 20 1 6 = Inr 3 \<and> (1::int) \<le> 3 \<and> (3::int) \<le> 6"
  using C1_map_range [of 1 6 20] by simp

subsection \<open>The retry loop and the paths through \<^verbatim>\<open>rdrand\<close>\<close>

lemma rdrand_loop_trace:
  "\<exists>m\<le>n. fst (rdrand_loop step lo hi i n) = replicate m Call_rdrand_step"
proof (induction n arbitrary: i)
  case 0
  then show ?case by simp
next
  case (Suc n)
  from Suc.IH [of "Suc i"] obtain m where m: "m \<le> n"
    "fst (rdrand_loop step lo hi (Suc i) n) = replicate m Call_rdrand_step" by blast
  show ?case
  proof (cases "fst (step i)")
    case True
    then have "fst (rdrand_loop step lo hi i (Suc n)) = replicate 1 Call_rdrand_step" by simp
    then show ?thesis by (metis One_nat_def Suc_le_mono le0)
  next
    case False
    with m have "fst (rdrand_loop step lo hi i (Suc n)) = replicate (Suc m) Call_rdrand_step"
      by (simp add: case_prod_beta)
    with m show ?thesis by (metis Suc_le_mono)
  qed
qed

lemma rdrand_loop_exhaust:
  "(\<forall>j<n. \<not> fst (step (i + j))) \<Longrightarrow>
   rdrand_loop step lo hi i n =
     (replicate n Call_rdrand_step, Inl (RuntimeError ''RDRAND returned CF=0 ten times''))"
proof (induction n arbitrary: i)
  case 0
  then show ?case by simp
next
  case (Suc n)
  from Suc.prems have now: "\<not> fst (step i)" by (metis add.right_neutral zero_less_Suc)
  from Suc.prems have "\<forall>j<n. \<not> fst (step (Suc i + j))" by (metis Suc_less_eq add_Suc_shift)
  from Suc.IH [OF this] now show ?case by simp
qed

lemma rdrand_loop_first:
  "k < n \<Longrightarrow> (\<forall>j<k. \<not> fst (step (i + j))) \<Longrightarrow> fst (step (i + k)) \<Longrightarrow>
   rdrand_loop step lo hi i n =
     (replicate (Suc k) Call_rdrand_step, map_range (uint (snd (step (i + k)))) lo hi)"
proof (induction n arbitrary: i k)
  case 0
  then show ?case by simp
next
  case (Suc n)
  show ?case
  proof (cases k)
    case 0
    with Suc.prems show ?thesis by simp
  next
    case (Suc k')
    with Suc.prems have now: "\<not> fst (step i)" by (metis add.right_neutral zero_less_Suc)
    from Suc Suc.prems have rest: "k' < n" "\<forall>j<k'. \<not> fst (step (Suc i + j))"
      "fst (step (Suc i + k'))"
      by (simp, metis Suc_less_eq add_Suc_shift, simp)
    from Suc.IH [OF rest] now Suc show ?thesis by simp
  qed
qed

lemma rdrand_loop_Inr:
  "snd (rdrand_loop step lo hi i n) = Inr v \<Longrightarrow>
   \<exists>k<n. fst (step (i + k)) \<and> map_range (uint (snd (step (i + k)))) lo hi = Inr v"
proof (induction n arbitrary: i)
  case 0
  then show ?case by simp
next
  case (Suc n)
  show ?case
  proof (cases "fst (step i)")
    case True
    with Suc.prems have "map_range (uint (snd (step (i + 0)))) lo hi = Inr v" by simp
    with True show ?thesis by (metis add.right_neutral zero_less_Suc)
  next
    case False
    with Suc.prems have "snd (rdrand_loop step lo hi (Suc i) n) = Inr v"
      by (simp add: case_prod_beta)
    from Suc.IH [OF this] obtain k where "k < n" "fst (step (Suc i + k))"
      "map_range (uint (snd (step (Suc i + k)))) lo hi = Inr v" by blast
    then have "Suc k < Suc n \<and> fst (step (i + Suc k))
      \<and> map_range (uint (snd (step (i + Suc k)))) lo hi = Inr v" by simp
    then show ?thesis by blast
  qed
qed

lemma rdrand_reaches_loop:
  assumes "snd (supports_rdrand h)" "lo < hi" "VirtualAlloc h 0 \<noteq> 0"
  shows "rdrand h lo hi =
     ([Call_IsProcessorFeaturePresent PF_RDRAND_AVAILABLE,
       Call_VirtualAlloc (length rdrand_code), Call_memmove]
        @ fst (rdrand_loop (rdrand_stub h) lo hi 0 10),
      snd (rdrand_loop (rdrand_stub h) lo hi 0 10))"
proof -
  from assms(1) have sup: "supports_rdrand h =
      ([Call_IsProcessorFeaturePresent PF_RDRAND_AVAILABLE], True)"
    by (auto simp: supports_rdrand_def split: if_splits)
  from assms(2) have chk: "check_range lo hi = Inr ()" by (simp add: check_range_def)
  from assms(3) have mk: "make_rdrand_asm h =
      ([Call_VirtualAlloc (length rdrand_code), Call_memmove], Inr (rdrand_stub h))"
    by (simp add: make_rdrand_asm_def)
  show ?thesis
    by (simp add: rdrand_def sup chk mk split: prod.splits)
qed

lemma rdrand_unsupported:
  "\<not> snd (supports_rdrand h) \<Longrightarrow>
   rdrand h lo hi = (fst (supports_rdrand h), Inl (OSError ''RDRAND not supported on this CPU/OS''))"
  by (cases "supports_rdrand h") (simp add: rdrand_def)

lemma rdrand_bad_range:
  "snd (supports_rdrand h) \<Longrightarrow> hi \<le> lo \<Longrightarrow>
   rdrand h lo hi = (fst (supports_rdrand h), Inl (ValueError ''min must be < max''))"
  by (cases "supports_rdrand h") (simp add: rdrand_def check_range_def)

lemma rdrand_no_alloc:
  assumes "snd (supports_rdrand h)" "lo < hi" "VirtualAlloc h 0 = 0"
  shows "rdrand h lo hi =
     ([Call_IsProcessorFeaturePresent PF_RDRAND_AVAILABLE, Call_VirtualAlloc (length rdrand_code)],
      Inl (OSError ''VirtualAlloc failed''))"
proof -
  from assms(1) have sup: "supports_rdrand h =
      ([Call_IsProcessorFeaturePresent PF_RDRAND_AVAILABLE], True)"
    by (auto simp: supports_rdrand_def split: if_splits)
  from assms(2) have chk: "check_range lo hi = Inr ()" by (simp add: check_range_def)
  from assms(3) have mk: "make_rdrand_asm h =
      ([Call_VirtualAlloc (length rdrand_code)], Inl (OSError ''VirtualAlloc failed''))"
    by (simp add: make_rdrand_asm_def)
  show ?thesis
    by (simp add: rdrand_def sup chk mk)
qed

lemma supports_rdrand_trace:
  "fst (supports_rdrand h) =
     (if platform_system h = ''Windows''
      then [Call_IsProcessorFeaturePresent PF_RDRAND_AVAILABLE] else [])"
  by (simp add: supports_rdrand_def)

subsection \<open>Range validation and entropy\<close>

text \<open>
  C2 (as the code has it).  For every pair \<open>lo \<ge> hi\<close> each generator fails before any
  entropy is consumed: nothing is read from the entropy pool, no crypto context is
  acquired, no memory is allocated and the RDRAND stub is not invoked.  The error
  is the invalid-range \<^verbatim>\<open>ValueError\<close> for \<^verbatim>\<open>entropy_pool\<close>, and for
  \<^verbatim>\<open>crypto_api\<close> and \<^verbatim>\<open>rdrand\<close> on a host that supports them; on a host that
  does not, the support check comes first and the error is the \<^verbatim>\<open>OSError\<close> of that
  check.  The only call made is the CPU-feature query of \<^verbatim>\<open>supports_rdrand\<close>.
\<close>

theorem C2_invalid_range_consumes_no_entropy:
  assumes "hi \<le> lo"
  shows "entropy_pool h lo hi = ([], Inl (ValueError ''min must be < max''))
   \<and> crypto_api h lo hi =
       ([], Inl (if supports_crypto_api h then ValueError ''min must be < max''
                 else OSError (''CryptGenRandom is Windows'' @ nb_hyphen @ ''only'')))
   \<and> rdrand h lo hi =
       (if platform_system h = ''Windows''
        then [Call_IsProcessorFeaturePresent PF_RDRAND_AVAILABLE] else [],
        Inl (if snd (supports_rdrand h) then ValueError ''min must be < max''
             else OSError ''RDRAND not supported on this CPU/OS''))"
proof -
  from assms have chk: "check_range lo hi = Inl (ValueError ''min must be < max'')"
    by (simp add: check_range_def)
  have a: "entropy_pool h lo hi = ([], Inl (ValueError ''min must be < max''))"
    by (simp add: entropy_pool_def chk)
  have b: "crypto_api h lo hi =
       ([], Inl (if supports_crypto_api h then ValueError ''min must be < max''
                 else OSError (''CryptGenRandom is Windows'' @ nb_hyphen @ ''only'')))"
    by (simp add: crypto_api_def supports_crypto_api_def chk)
  have c: "rdrand h lo hi =
       (if platform_system h = ''Windows''
        then [Call_IsProcessorFeaturePresent PF_RDRAND_AVAILABLE] else [],
        Inl (if snd (supports_rdrand h) then ValueError ''min must be < max''
             else OSError ''RDRAND not supported on this CPU/OS''))"
  proof (cases "snd (supports_rdrand h)")
    case True
    from rdrand_bad_range [OF True assms] True show ?thesis
      by (simp add: supports_rdrand_trace)
  next
    case False
    from rdrand_unsupported [OF False] False show ?thesis
      by (simp add: supports_rdrand_trace)
  qed
  from a b c show ?thesis by blast
qed

theorem C2_witness:
  "(1::int) \<le> 5
   \<and> entropy_pool windows_host 5 1 = ([], Inl (ValueError ''min must be < max''))
   \<and> crypto_api windows_host 5 1 = ([], Inl (ValueError ''min must be < max''))
   \<and> rdrand windows_host 5 1 =
       ([Call_IsProcessorFeaturePresent 33], Inl (ValueError ''min must be < max''))"
  using C2_invalid_range_consumes_no_entropy [of 1 5 windows_host]
  by (simp add: windows_host_def supports_crypto_api_def supports_rdrand_def
        PF_RDRAND_AVAILABLE_def)

text \<open>On a Linux host \<^verbatim>\<open>crypto_api(5, 1)\<close> does not raise the invalid-range error.\<close>

theorem C2_counterexample:
  "(1::int) \<le> 5
   \<and> snd (crypto_api linux_host 5 1) \<noteq> Inl (ValueError ''min must be < max'')
   \<and> snd (crypto_api linux_host 5 1)
       = Inl (OSError (''CryptGenRandom is Windows'' @ nb_hyphen @ ''only''))"
  by (simp add: crypto_api_def linux_host_def windows_host_def)

subsection \<open>The retry budget of \<^verbatim>\<open>rdrand\<close>\<close>

text \<open>
  C3.  The hardware-instruction backend invokes the stub at most 10 times per call.
  When the call reaches the loop and attempt \<open>k + 1\<close> (with \<open>k < 10\<close>) is the first
  whose success flag is true, exactly \<open>k + 1\<close> invocations occur and the 64-bit
  value of that attempt is the one handed unchanged to the range mapper, whose
  result is returned; when all 10 attempts signal failure, exactly 10 invocations
  occur and the call fails with \<^verbatim>\<open>RuntimeError("RDRAND returned CF=0 ten times")\<close>.
\<close>

theorem C3_rdrand_retry_budget:
  "count_list (fst (rdrand h lo hi)) Call_rdrand_step \<le> 10
   \<and> (snd (supports_rdrand h) \<and> lo < hi \<and> VirtualAlloc h 0 \<noteq> 0 \<longrightarrow>
        (k < 10 \<and> (\<forall>j<k. \<not> fst (rdrand_stub h j)) \<and> fst (rdrand_stub h k) \<longrightarrow>
           count_list (fst (rdrand h lo hi)) Call_rdrand_step = Suc k
           \<and> snd (rdrand h lo hi) = map_range (uint (snd (rdrand_stub h k))) lo hi
           \<and> snd (rdrand h lo hi) = Inr (lo + uint (snd (rdrand_stub h k)) mod (hi - lo + 1)))
        \<and> ((\<forall>j<10. \<not> fst (rdrand_stub h j)) \<longrightarrow>
           count_list (fst (rdrand h lo hi)) Call_rdrand_step = 10
           \<and> snd (rdrand h lo hi) = Inl (RuntimeError ''RDRAND returned CF=0 ten times'')))"
proof -
  have cnt: "count_list (replicate m Call_rdrand_step) Call_rdrand_step = m" for m
    by (induction m) simp_all
  have bound: "count_list (fst (rdrand h lo hi)) Call_rdrand_step \<le> 10"
  proof (cases "snd (supports_rdrand h) \<and> lo < hi \<and> VirtualAlloc h 0 \<noteq> 0")
    case True
    obtain m where m: "m \<le> 10"
      "fst (rdrand_loop (rdrand_stub h) lo hi 0 10) = replicate m Call_rdrand_step"
      using rdrand_loop_trace [of 10 "rdrand_stub h" lo hi 0] by blast
    from True have "rdrand h lo hi =
       ([Call_IsProcessorFeaturePresent PF_RDRAND_AVAILABLE,
         Call_VirtualAlloc (length rdrand_code), Call_memmove]
          @ fst (rdrand_loop (rdrand_stub h) lo hi 0 10),
        snd (rdrand_loop (rdrand_stub h) lo hi 0 10))"
      by (simp add: rdrand_reaches_loop)
    with m show ?thesis by (simp add: cnt)
  next
    case False
    then consider "\<not> snd (supports_rdrand h)" | "snd (supports_rdrand h)" "hi \<le> lo"
      | "snd (supports_rdrand h)" "lo < hi" "VirtualAlloc h 0 = 0"
      by linarith
    then show ?thesis
    proof cases
      case 1
      then show ?thesis by (simp add: rdrand_unsupported supports_rdrand_trace)
    next
      case 2
      then show ?thesis by (simp add: rdrand_bad_range supports_rdrand_trace)
    next
      case 3
      then show ?thesis by (simp add: rdrand_no_alloc)
    qed
  qed
  have rest: "count_list (fst (rdrand h lo hi)) Call_rdrand_step = Suc k
           \<and> snd (rdrand h lo hi) = map_range (uint (snd (rdrand_stub h k))) lo hi
           \<and> snd (rdrand h lo hi) = Inr (lo + uint (snd (rdrand_stub h k)) mod (hi - lo + 1))"
    if reach: "snd (supports_rdrand h)" "lo < hi" "VirtualAlloc h 0 \<noteq> 0"
      and first: "k < 10" "\<forall>j<k. \<not> fst (rdrand_stub h j)" "fst (rdrand_stub h k)"
  proof -
    from first have "rdrand_loop (rdrand_stub h) lo hi 0 10 =
       (replicate (Suc k) Call_rdrand_step, map_range (uint (snd (rdrand_stub h (0 + k)))) lo hi)"
      by (intro rdrand_loop_first) simp_all
    with rdrand_reaches_loop [OF reach] map_range_in_range(1) [OF reach(2)] show ?thesis
      by (simp add: cnt)
  qed
  have exhausted: "count_list (fst (rdrand h lo hi)) Call_rdrand_step = 10
           \<and> snd (rdrand h lo hi) = Inl (RuntimeError ''RDRAND returned CF=0 ten times'')"
    if reach: "snd (supports_rdrand h)" "lo < hi" "VirtualAlloc h 0 \<noteq> 0"
      and none: "\<forall>j<10. \<not> fst (rdrand_stub h j)"
  proof -
    from none have "rdrand_loop (rdrand_stub h) lo hi 0 10 =
       (replicate 10 Call_rdrand_step, Inl (RuntimeError ''RDRAND returned CF=0 ten times''))"
      by (intro rdrand_loop_exhaust) simp
    with rdrand_reaches_loop [OF reach] show ?thesis
      by (simp add: cnt)
  qed
  from bound rest exhausted show ?thesis by blast
qed

theorem C3_witness:
  "(count_list (fst (rdrand windows_host 1 100)) Call_rdrand_step = 7
    \<and> snd (rdrand windows_host 1 100) = Inr 7)
   \<and> (count_list (fst (rdrand busy_rdrand_host 1 100)) Call_rdrand_step = 10
    \<and> snd (rdrand busy_rdrand_host 1 100) = Inl (RuntimeError ''RDRAND returned CF=0 ten times''))"
proof -
  have reach: "snd (supports_rdrand windows_host) \<and> (1::int) < 100
      \<and> VirtualAlloc windows_host 0 \<noteq> 0"
    by (simp add: windows_host_def supports_rdrand_def)
  have first: "(6::nat) < 10 \<and> (\<forall>j<6. \<not> fst (rdrand_stub windows_host j))
      \<and> fst (rdrand_stub windows_host 6)"
    by (simp add: windows_host_def)
  have val: "uint (snd (rdrand_stub windows_host 6)) = 1006"
    by (simp add: windows_host_def)
  have reach': "snd (supports_rdrand busy_rdrand_host) \<and> (1::int) < 100
      \<and> VirtualAlloc busy_rdrand_host 0 \<noteq> 0"
    by (simp add: busy_rdrand_host_def windows_host_def supports_rdrand_def)
  have none: "\<forall>j<10. \<not> fst (rdrand_stub busy_rdrand_host j)"
    by (simp add: busy_rdrand_host_def windows_host_def)
  from C3_rdrand_retry_budget [of windows_host 1 100 6] reach first val
  have a: "count_list (fst (rdrand windows_host 1 100)) Call_rdrand_step = 7
    \<and> snd (rdrand windows_host 1 100) = Inr 7"
    by (simp add: map_range_def)
  from C3_rdrand_retry_budget [of busy_rdrand_host 1 100 0] reach' none
  have b: "count_list (fst (rdrand busy_rdrand_host 1 100)) Call_rdrand_step = 10
    \<and> snd (rdrand busy_rdrand_host 1 100)
        = Inl (RuntimeError ''RDRAND returned CF=0 ten times'')"
    by blast
  from a b show ?thesis by blast
qed

subsection \<open>Capability tests\<close>

text \<open>The feature index that \<^verbatim>\<open>supports_rdrand\<close> asks about is 33 and no other:
  its answer agrees with the query for index \<open>r\<close> on every host only if \<open>r\<close> is 33.\<close>

lemma supports_rdrand_index:
  "(\<forall>h. snd (supports_rdrand h) =
          (platform_system h = ''Windows'' \<and> IsProcessorFeaturePresent h r \<noteq> 0))
   = (r = 33)"
proof
  assume agree: "\<forall>h. snd (supports_rdrand h) =
          (platform_system h = ''Windows'' \<and> IsProcessorFeaturePresent h r \<noteq> 0)"
  define h0 where
    "h0 = windows_host \<lparr> IsProcessorFeaturePresent := (\<lambda>n. if n = r then 1 else 0) \<rparr>"
  from agree have "snd (supports_rdrand h0) =
          (platform_system h0 = ''Windows'' \<and> IsProcessorFeaturePresent h0 r \<noteq> 0)"
    by blast
  then show "r = 33"
    by (simp add: h0_def supports_rdrand_def PF_RDRAND_AVAILABLE_def windows_host_def
          split: if_splits)
next
  assume "r = 33"
  then show "\<forall>h. snd (supports_rdrand h) =
          (platform_system h = ''Windows'' \<and> IsProcessorFeaturePresent h r \<noteq> 0)"
    by (simp add: supports_rdrand_def PF_RDRAND_AVAILABLE_def)
qed

text \<open>
  C5.  The capability tests depend on the host only.  \<^verbatim>\<open>supports_entropy\<close> is true on
  every host and \<^verbatim>\<open>supports_crypto_api\<close> is true exactly when \<^verbatim>\<open>platform.system()\<close>
  is \<^verbatim>\<open>"Windows"\<close>.  \<^verbatim>\<open>supports_rdrand\<close> makes no call off Windows and one call,
  \<^verbatim>\<open>IsProcessorFeaturePresent(33)\<close>, on Windows, and returns whether that answer is
  non-zero; it allocates nothing and invokes no stub.  Index 33 is the RDPID flag
  of the Windows SDK, not the RDRAND flag (28) that the source's comment names: on
  a Windows host whose feature query reports RDRAND present and RDPID absent,
  \<^verbatim>\<open>supports_rdrand\<close> returns false, where the claim has it return true.
\<close>

theorem C5_capability_probes:
  "supports_entropy h
   \<and> supports_crypto_api h = (platform_system h = ''Windows'')
   \<and> supports_rdrand h =
       (if platform_system h = ''Windows''
        then ([Call_IsProcessorFeaturePresent 33], IsProcessorFeaturePresent h 33 \<noteq> 0)
        else ([], False))
   \<and> PF_RDRAND_AVAILABLE = PF_RDPID_INSTRUCTION_AVAILABLE
   \<and> PF_RDRAND_AVAILABLE \<noteq> PF_RDRAND_INSTRUCTION_AVAILABLE
   \<and> platform_system rdrand_only_host = ''Windows''
   \<and> IsProcessorFeaturePresent rdrand_only_host PF_RDRAND_INSTRUCTION_AVAILABLE \<noteq> 0
   \<and> supports_rdrand rdrand_only_host = ([Call_IsProcessorFeaturePresent 33], False)"
proof -
  have probes: "supports_entropy h"
    "supports_crypto_api h = (platform_system h = ''Windows'')"
    "supports_rdrand h =
       (if platform_system h = ''Windows''
        then ([Call_IsProcessorFeaturePresent 33], IsProcessorFeaturePresent h 33 \<noteq> 0)
        else ([], False))"
    by (simp_all add: supports_entropy_def supports_crypto_api_def supports_rdrand_def
          PF_RDRAND_AVAILABLE_def)
  have index: "PF_RDRAND_AVAILABLE = PF_RDPID_INSTRUCTION_AVAILABLE"
    "PF_RDRAND_AVAILABLE \<noteq> PF_RDRAND_INSTRUCTION_AVAILABLE"
    by (simp_all add: PF_RDRAND_AVAILABLE_def PF_RDPID_INSTRUCTION_AVAILABLE_def
          PF_RDRAND_INSTRUCTION_AVAILABLE_def)
  have host: "platform_system rdrand_only_host = ''Windows''"
    "IsProcessorFeaturePresent rdrand_only_host PF_RDRAND_INSTRUCTION_AVAILABLE \<noteq> 0"
    by (simp_all add: rdrand_only_host_def windows_host_def)
  have answer: "supports_rdrand rdrand_only_host = ([Call_IsProcessorFeaturePresent 33], False)"
    by (simp add: supports_rdrand_def PF_RDRAND_AVAILABLE_def rdrand_only_host_def
          PF_RDRAND_INSTRUCTION_AVAILABLE_def windows_host_def)
  from probes index host answer show ?thesis by blast
qed

subsection \<open>The divisor of the range mapper\<close>

text \<open>
  C9.  Whenever \<^verbatim>\<open>_check_range\<close> passes, the divisor \<open>hi - lo + 1\<close> is at least 2,
  so the modulo of the range mapper never divides by zero and the mapper returns a
  value for every raw input.
\<close>

theorem C9_divisor_at_least_two:
  assumes "check_range lo hi = Inr ()"
  shows "2 \<le> hi - lo + 1 \<and> hi - lo + 1 \<noteq> 0
         \<and> map_range v lo hi = Inr (lo + v mod (hi - lo + 1))"
proof -
  from assms have lt: "lo < hi"
    by (simp add: check_range_def split: if_splits)
  then have "2 \<le> hi - lo + 1" by simp
  with map_range_in_range(1) [OF lt, of v] show ?thesis by simp
qed

theorem C9_witness:
  "check_range 1 2 = Inr () \<and> (2::int) \<le> 2 - 1 + 1 \<and> map_range 7 1 2 = Inr 2"
proof -
  have chk: "check_range 1 2 = Inr ()" by (simp add: check_range_def)
  from C9_divisor_at_least_two [OF chk, of 7] chk show ?thesis by simp
qed

subsection \<open>Order of the support check and the range check\<close>

text \<open>
  C10.  In \<^verbatim>\<open>crypto_api\<close> and in \<^verbatim>\<open>rdrand\<close> the support check is made before the
  range is validated: on a host where the backend is unsupported, a call with
  \<open>lo \<ge> hi\<close> fails with the \<^verbatim>\<open>OSError\<close> of the support check, not with the
  invalid-range error.
\<close>

theorem C10_support_check_precedes_range_check:
  assumes "hi \<le> lo"
  shows "(\<not> supports_crypto_api h \<longrightarrow>
            crypto_api h lo hi =
              ([], Inl (OSError (''CryptGenRandom is Windows'' @ nb_hyphen @ ''only''))))
       \<and> (\<not> snd (supports_rdrand h) \<longrightarrow>
            snd (rdrand h lo hi) = Inl (OSError ''RDRAND not supported on this CPU/OS''))"
proof -
  have a: "crypto_api h lo hi =
        ([], Inl (OSError (''CryptGenRandom is Windows'' @ nb_hyphen @ ''only'')))"
    if "\<not> supports_crypto_api h"
    using that by (simp add: crypto_api_def supports_crypto_api_def)
  have b: "snd (rdrand h lo hi) = Inl (OSError ''RDRAND not supported on this CPU/OS'')"
    if "\<not> snd (supports_rdrand h)"
    using rdrand_unsupported [OF that] by simp
  from a b show ?thesis by blast
qed

theorem C10_witness:
  "(1::int) \<le> 5 \<and> \<not> supports_crypto_api linux_host \<and> \<not> snd (supports_rdrand linux_host)
   \<and> crypto_api linux_host 5 1 =
        ([], Inl (OSError (''CryptGenRandom is Windows'' @ nb_hyphen @ ''only'')))
   \<and> snd (rdrand linux_host 5 1) = Inl (OSError ''RDRAND not supported on this CPU/OS'')"
proof -
  have unsup: "\<not> supports_crypto_api linux_host" "\<not> snd (supports_rdrand linux_host)"
    by (simp_all add: supports_crypto_api_def supports_rdrand_def linux_host_def windows_host_def)
  have le: "(1::int) \<le> 5" by simp
  from C10_support_check_precedes_range_check [OF le, of linux_host] unsup le
  show ?thesis by blast
qed

subsection \<open>Allocation of the executable stub\<close>

text \<open>
  C8.  A call of \<^verbatim>\<open>rdrand\<close> never allocates more than once.  A call that passes the
  support check and the range check allocates exactly once, before any invocation
  of the stub; if that allocation fails the call fails with
  \<^verbatim>\<open>OSError("VirtualAlloc failed")\<close> after the feature query and the one allocation,
  with no retry and no invocation of the stub.
\<close>

theorem C8_allocation_failure:
  "count_list (fst (rdrand h lo hi)) (Call_VirtualAlloc (length rdrand_code)) \<le> 1
   \<and> (snd (supports_rdrand h) \<and> lo < hi \<longrightarrow>
        count_list (fst (rdrand h lo hi)) (Call_VirtualAlloc (length rdrand_code)) = 1
        \<and> Call_rdrand_step \<notin>
            set (takeWhile (\<lambda>e. e \<noteq> Call_VirtualAlloc (length rdrand_code)) (fst (rdrand h lo hi)))
        \<and> (VirtualAlloc h 0 = 0 \<longrightarrow>
             rdrand h lo hi =
               ([Call_IsProcessorFeaturePresent PF_RDRAND_AVAILABLE,
                 Call_VirtualAlloc (length rdrand_code)],
                Inl (OSError ''VirtualAlloc failed''))))"
proof -
  have cnt: "count_list (replicate m Call_rdrand_step) (Call_VirtualAlloc n) = 0" for m n
    by (induction m) simp_all
  have reached: "count_list (fst (rdrand h lo hi)) (Call_VirtualAlloc (length rdrand_code)) = 1
        \<and> Call_rdrand_step \<notin>
            set (takeWhile (\<lambda>e. e \<noteq> Call_VirtualAlloc (length rdrand_code)) (fst (rdrand h lo hi)))"
    if reach: "snd (supports_rdrand h)" "lo < hi"
  proof (cases "VirtualAlloc h 0 = 0")
    case True
    with rdrand_no_alloc [OF reach] show ?thesis by simp
  next
    case False
    obtain m where "fst (rdrand_loop (rdrand_stub h) lo hi 0 10) = replicate m Call_rdrand_step"
      using rdrand_loop_trace [of 10 "rdrand_stub h" lo hi 0] by blast
    with rdrand_reaches_loop [OF reach False] show ?thesis by (simp add: cnt)
  qed
  have fails: "rdrand h lo hi =
               ([Call_IsProcessorFeaturePresent PF_RDRAND_AVAILABLE,
                 Call_VirtualAlloc (length rdrand_code)],
                Inl (OSError ''VirtualAlloc failed''))"
    if "snd (supports_rdrand h)" "lo < hi" "VirtualAlloc h 0 = 0"
    using that by (rule rdrand_no_alloc)
  have bound: "count_list (fst (rdrand h lo hi)) (Call_VirtualAlloc (length rdrand_code)) \<le> 1"
  proof (cases "snd (supports_rdrand h)")
    case True
    show ?thesis
    proof (cases "lo < hi")
      case True
      with reached \<open>snd (supports_rdrand h)\<close> show ?thesis by simp
    next
      case False
      with rdrand_bad_range [OF \<open>snd (supports_rdrand h)\<close>, of hi lo] show ?thesis
        by (simp add: supports_rdrand_trace)
    qed
  next
    case False
    with rdrand_unsupported [OF False, of lo hi] show ?thesis
      by (simp add: supports_rdrand_trace)
  qed
  from bound reached fails show ?thesis by blast
qed

theorem C8_witness:
  "snd (supports_rdrand no_alloc_host) \<and> (1::int) < 100 \<and> VirtualAlloc no_alloc_host 0 = 0
   \<and> count_list (fst (rdrand no_alloc_host 1 100)) (Call_VirtualAlloc 13) = 1
   \<and> rdrand no_alloc_host 1 100 =
        ([Call_IsProcessorFeaturePresent 33, Call_VirtualAlloc 13],
         Inl (OSError ''VirtualAlloc failed''))"
proof -
  have reach: "snd (supports_rdrand no_alloc_host) \<and> (1::int) < 100"
    by (simp add: no_alloc_host_def windows_host_def supports_rdrand_def)
  have null: "VirtualAlloc no_alloc_host 0 = 0"
    by (simp add: no_alloc_host_def windows_host_def)
  from C8_allocation_failure [of no_alloc_host 1 100] reach null show ?thesis
    by (simp add: rdrand_code_def PF_RDRAND_AVAILABLE_def)
qed

subsection \<open>Acquire, use, release\<close>

lemma crypto_api_try_trace:
  "fst (crypto_api_try h) =
     (if fst (CryptGenRandom h) = 0 then [Call_CryptGenRandom, Call_GetLastError]
      else [Call_CryptGenRandom])"
  by (simp add: crypto_api_try_def split: sum.splits)

lemma crypto_api_try_result:
  "snd (crypto_api_try h) =
     (if fst (CryptGenRandom h) = 0
      then Inl (OSError (''CryptGenRandom failed (0x'' @ format_08X (GetLastError h) @ '')''))
      else unpack_Q h (snd (CryptGenRandom h)))"
  by (simp add: crypto_api_try_def split: sum.splits)

lemma crypto_api_acquired:
  assumes "platform_system h = ''Windows''" "lo < hi" "CryptAcquireContextW h \<noteq> 0"
  shows "fst (crypto_api h lo hi) =
           Call_CryptAcquireContextW # fst (crypto_api_try h) @ [Call_CryptReleaseContext]"
    and "snd (crypto_api h lo hi) =
           (case snd (crypto_api_try h) of Inl e \<Rightarrow> Inl e | Inr rand64 \<Rightarrow> map_range rand64 lo hi)"
proof -
  from assms(2) have chk: "check_range lo hi = Inr ()" by (simp add: check_range_def)
  obtain t r where tr: "crypto_api_try h = (t, r)" by (cases "crypto_api_try h")
  from assms(1,3) show "fst (crypto_api h lo hi) =
           Call_CryptAcquireContextW # fst (crypto_api_try h) @ [Call_CryptReleaseContext]"
    by (cases r) (simp_all add: crypto_api_def chk tr)
  from assms(1,3) show "snd (crypto_api h lo hi) =
           (case snd (crypto_api_try h) of Inl e \<Rightarrow> Inl e | Inr rand64 \<Rightarrow> map_range rand64 lo hi)"
    by (cases r) (simp_all add: crypto_api_def chk tr)
qed

lemma crypto_api_not_acquired:
  assumes "platform_system h = ''Windows''" "lo < hi" "CryptAcquireContextW h = 0"
  shows "crypto_api h lo hi =
     ([Call_CryptAcquireContextW, Call_GetLastError],
      Inl (OSError (''CryptAcquireContextW failed (0x'' @ format_08X (GetLastError h) @ '')'')))"
  using assms by (simp add: crypto_api_def check_range_def)

text \<open>
  C4.  In the platform crypto API backend (\<^verbatim>\<open>crypto_api\<close>, and the archived
  \<^verbatim>\<open>RandomNumberGeneratorGUI.generate_crypto_hardware_random\<close>), once the call reaches
  the acquisition: if acquiring the context fails, the call fails with an
  \<^verbatim>\<open>OSError\<close> whose message carries the code of \<^verbatim>\<open>GetLastError\<close>, and the context
  is never released; if acquiring succeeds, the context is released exactly once,
  as the last call made, on success as well as when \<^verbatim>\<open>CryptGenRandom\<close> fails and its
  \<^verbatim>\<open>OSError\<close> propagates.
\<close>

theorem C4_context_release:
  "(platform_system h = ''Windows'' \<and> lo < hi \<longrightarrow>
      (CryptAcquireContextW h = 0 \<longrightarrow>
         snd (crypto_api h lo hi) =
           Inl (OSError (''CryptAcquireContextW failed (0x'' @ format_08X (GetLastError h) @ '')''))
         \<and> count_list (fst (crypto_api h lo hi)) Call_CryptReleaseContext = 0)
      \<and> (CryptAcquireContextW h \<noteq> 0 \<longrightarrow>
         count_list (fst (crypto_api h lo hi)) Call_CryptReleaseContext = 1
         \<and> last (fst (crypto_api h lo hi)) = Call_CryptReleaseContext
         \<and> (fst (CryptGenRandom h) = 0 \<longrightarrow>
              snd (crypto_api h lo hi) =
                Inl (OSError (''CryptGenRandom failed (0x'' @ format_08X (GetLastError h) @ '')'')))))
   \<and> (platform_system h = ''Windows'' \<longrightarrow>
      (CryptAcquireContextW h = 0 \<longrightarrow>
         snd (gui2024_generate_crypto_hardware_random h lo hi) =
           Inl (OSError (''Failed to acquire cryptographic context on Windows, error code: ''
                         @ str_int (GetLastError h)))
         \<and> count_list (fst (gui2024_generate_crypto_hardware_random h lo hi))
              Call_CryptReleaseContext = 0)
      \<and> (CryptAcquireContextW h \<noteq> 0 \<longrightarrow>
         count_list (fst (gui2024_generate_crypto_hardware_random h lo hi))
              Call_CryptReleaseContext = 1
         \<and> last (fst (gui2024_generate_crypto_hardware_random h lo hi)) = Call_CryptReleaseContext
         \<and> (fst (CryptGenRandom h) = 0 \<longrightarrow>
              snd (gui2024_generate_crypto_hardware_random h lo hi) =
                Inl (OSError (''Failed to generate random number on Windows, error code: ''
                              @ str_int (GetLastError h))))))"
proof -
  have a: "snd (crypto_api h lo hi) =
           Inl (OSError (''CryptAcquireContextW failed (0x'' @ format_08X (GetLastError h) @ '')''))
         \<and> count_list (fst (crypto_api h lo hi)) Call_CryptReleaseContext = 0"
    if "platform_system h = ''Windows''" "lo < hi" "CryptAcquireContextW h = 0"
    using crypto_api_not_acquired [OF that] by simp
  have b: "count_list (fst (crypto_api h lo hi)) Call_CryptReleaseContext = 1
         \<and> last (fst (crypto_api h lo hi)) = Call_CryptReleaseContext
         \<and> (fst (CryptGenRandom h) = 0 \<longrightarrow>
              snd (crypto_api h lo hi) =
                Inl (OSError (''CryptGenRandom failed (0x'' @ format_08X (GetLastError h) @ '')'')))"
    if "platform_system h = ''Windows''" "lo < hi" "CryptAcquireContextW h \<noteq> 0"
    using crypto_api_acquired [OF that]
    by (simp add: crypto_api_try_trace crypto_api_try_result)
  have c: "snd (gui2024_generate_crypto_hardware_random h lo hi) =
           Inl (OSError (''Failed to acquire cryptographic context on Windows, error code: ''
                         @ str_int (GetLastError h)))
         \<and> count_list (fst (gui2024_generate_crypto_hardware_random h lo hi))
              Call_CryptReleaseContext = 0"
    if "platform_system h = ''Windows''" "CryptAcquireContextW h = 0"
    using that by (simp add: gui2024_generate_crypto_hardware_random_def)
  have d: "count_list (fst (gui2024_generate_crypto_hardware_random h lo hi))
              Call_CryptReleaseContext = 1
         \<and> last (fst (gui2024_generate_crypto_hardware_random h lo hi)) = Call_CryptReleaseContext
         \<and> (fst (CryptGenRandom h) = 0 \<longrightarrow>
              snd (gui2024_generate_crypto_hardware_random h lo hi) =
                Inl (OSError (''Failed to generate random number on Windows, error code: ''
                              @ str_int (GetLastError h))))"
    if "platform_system h = ''Windows''" "CryptAcquireContextW h \<noteq> 0"
    using that by (simp add: gui2024_generate_crypto_hardware_random_def)
  from a b c d show ?thesis by blast
qed

theorem C4_witness:
  "(snd (crypto_api no_context_host 1 100) = Inl (OSError ''CryptAcquireContextW failed (0x00000005)'')
    \<and> count_list (fst (crypto_api no_context_host 1 100)) Call_CryptReleaseContext = 0)
   \<and> (count_list (fst (crypto_api no_random_host 1 100)) Call_CryptReleaseContext = 1
    \<and> snd (crypto_api no_random_host 1 100) = Inl (OSError ''CryptGenRandom failed (0x00000057)''))
   \<and> count_list (fst (crypto_api windows_host 1 100)) Call_CryptReleaseContext = 1"
proof -
  have h1: "platform_system no_context_host = ''Windows'' \<and> (1::int) < 100
      \<and> CryptAcquireContextW no_context_host = 0 \<and> GetLastError no_context_host = 5"
    by (simp add: no_context_host_def windows_host_def)
  have h2: "platform_system no_random_host = ''Windows'' \<and> (1::int) < 100
      \<and> CryptAcquireContextW no_random_host \<noteq> 0 \<and> fst (CryptGenRandom no_random_host) = 0
      \<and> GetLastError no_random_host = 87"
    by (simp add: no_random_host_def windows_host_def)
  have h3: "platform_system windows_host = ''Windows'' \<and> (1::int) < 100
      \<and> CryptAcquireContextW windows_host \<noteq> 0"
    by (simp add: windows_host_def)
  have f5: "format_08X 5 = ''00000005''" and f87: "format_08X 87 = ''00000057''"
    by code_simp+
  from C4_context_release [of no_context_host 1 100] h1 f5
  have a: "snd (crypto_api no_context_host 1 100)
        = Inl (OSError ''CryptAcquireContextW failed (0x00000005)'')
    \<and> count_list (fst (crypto_api no_context_host 1 100)) Call_CryptReleaseContext = 0"
    by simp
  from C4_context_release [of no_random_host 1 100] h2 f87
  have b: "count_list (fst (crypto_api no_random_host 1 100)) Call_CryptReleaseContext = 1
    \<and> snd (crypto_api no_random_host 1 100) = Inl (OSError ''CryptGenRandom failed (0x00000057)'')"
    by simp
  from C4_context_release [of windows_host 1 100] h3
  have c: "count_list (fst (crypto_api windows_host 1 100)) Call_CryptReleaseContext = 1"
    by simp
  from a b c show ?thesis by blast
qed

subsection \<open>Results are draws or errors\<close>

lemma entropy_pool_outcome:
  assumes "lo < hi"
  shows "(\<exists>e. snd (entropy_pool h lo hi) = Inl e)
       \<or> (\<exists>bs raw. os_urandom h = Inr bs \<and> unpack_Q h bs = Inr raw
             \<and> snd (entropy_pool h lo hi) = Inr (lo + raw mod (hi - lo + 1)))"
proof -
  from assms have chk: "check_range lo hi = Inr ()" by (simp add: check_range_def)
  show ?thesis
  proof (cases "os_urandom h")
    case (Inl e)
    then show ?thesis by (simp add: entropy_pool_def chk)
  next
    case (Inr bs)
    show ?thesis
    proof (cases "unpack_Q h bs")
      case (Inl e)
      with Inr show ?thesis by (simp add: entropy_pool_def chk)
    next
      case raw: (Inr raw)
      with Inr map_range_in_range(1) [OF assms, of raw] show ?thesis
        by (simp add: entropy_pool_def chk)
    qed
  qed
qed

lemma crypto_api_outcome:
  assumes "lo < hi"
  shows "(\<exists>e. snd (crypto_api h lo hi) = Inl e)
       \<or> (\<exists>raw. platform_system h = ''Windows'' \<and> CryptAcquireContextW h \<noteq> 0
             \<and> fst (CryptGenRandom h) \<noteq> 0 \<and> unpack_Q h (snd (CryptGenRandom h)) = Inr raw
             \<and> snd (crypto_api h lo hi) = Inr (lo + raw mod (hi - lo + 1)))"
proof (cases "platform_system h = ''Windows''")
  case False
  then show ?thesis by (simp add: crypto_api_def)
next
  case True
  show ?thesis
  proof (cases "CryptAcquireContextW h = 0")
    case True
    with crypto_api_not_acquired [OF \<open>platform_system h = ''Windows''\<close> assms] show ?thesis
      by simp
  next
    case False
    note res = crypto_api_acquired(2) [OF True assms False]
    show ?thesis
    proof (cases "fst (CryptGenRandom h) = 0")
      case True
      with res show ?thesis by (simp add: crypto_api_try_result)
    next
      case gen: False
      show ?thesis
      proof (cases "unpack_Q h (snd (CryptGenRandom h))")
        case (Inl e)
        with res gen show ?thesis by (simp add: crypto_api_try_result)
      next
        case (Inr raw)
        with res gen True False map_range_in_range(1) [OF assms, of raw] show ?thesis
          by (simp add: crypto_api_try_result)
      qed
    qed
  qed
qed

lemma rdrand_outcome:
  assumes "lo < hi"
  shows "(\<exists>e. snd (rdrand h lo hi) = Inl e)
       \<or> (\<exists>k<10. snd (supports_rdrand h) \<and> VirtualAlloc h 0 \<noteq> 0 \<and> fst (rdrand_stub h k)
             \<and> snd (rdrand h lo hi) = Inr (lo + uint (snd (rdrand_stub h k)) mod (hi - lo + 1)))"
proof (cases "snd (supports_rdrand h)")
  case False
  with rdrand_unsupported [OF False, of lo hi] show ?thesis by simp
next
  case True
  show ?thesis
  proof (cases "VirtualAlloc h 0 = 0")
    case True
    with rdrand_no_alloc [OF \<open>snd (supports_rdrand h)\<close> assms] show ?thesis by simp
  next
    case False
    note reach = rdrand_reaches_loop [OF True assms False]
    show ?thesis
    proof (cases "snd (rdrand_loop (rdrand_stub h) lo hi 0 10)")
      case (Inl e)
      with reach show ?thesis by simp
    next
      case (Inr v)
      from rdrand_loop_Inr [OF Inr] obtain k where k: "k < 10" "fst (rdrand_stub h k)"
        "map_range (uint (snd (rdrand_stub h k))) lo hi = Inr v" by auto
      from k(3) map_range_in_range(1) [OF assms, of "uint (snd (rdrand_stub h k))"]
      have "v = lo + uint (snd (rdrand_stub h k)) mod (hi - lo + 1)" by simp
      with reach Inr k True False show ?thesis by auto
    qed
  qed
qed

text \<open>
  C6 (as the code has it).  For each of the three generators of
  \<^verbatim>\<open>random_number_2025.py\<close> and every \<open>lo < hi\<close>, the call either raises, or every
  step of its entropy acquisition succeeded and it returns
  \<open>lo + raw mod (hi - lo + 1)\<close> for the raw value obtained, an integer in
  \<open>[lo, hi]\<close>: no failure is turned into a return value.  The archived
  \<^verbatim>\<open>RandomNumberGenerator.generate_crypto_hardware_random\<close> is different: when its
  entropy read raises, it prints the error and returns \<^verbatim>\<open>None\<close>.
\<close>

theorem C6_no_sentinel_results:
  assumes "lo < hi"
  shows "((\<exists>e. snd (entropy_pool h lo hi) = Inl e)
       \<or> (\<exists>bs raw. os_urandom h = Inr bs \<and> unpack_Q h bs = Inr raw
             \<and> snd (entropy_pool h lo hi) = Inr (lo + raw mod (hi - lo + 1))
             \<and> lo \<le> lo + raw mod (hi - lo + 1) \<and> lo + raw mod (hi - lo + 1) \<le> hi))
    \<and> ((\<exists>e. snd (crypto_api h lo hi) = Inl e)
       \<or> (\<exists>raw. platform_system h = ''Windows'' \<and> CryptAcquireContextW h \<noteq> 0
             \<and> fst (CryptGenRandom h) \<noteq> 0 \<and> unpack_Q h (snd (CryptGenRandom h)) = Inr raw
             \<and> snd (crypto_api h lo hi) = Inr (lo + raw mod (hi - lo + 1))
             \<and> lo \<le> lo + raw mod (hi - lo + 1) \<and> lo + raw mod (hi - lo + 1) \<le> hi))
    \<and> ((\<exists>e. snd (rdrand h lo hi) = Inl e)
       \<or> (\<exists>k<10. snd (supports_rdrand h) \<and> VirtualAlloc h 0 \<noteq> 0 \<and> fst (rdrand_stub h k)
             \<and> snd (rdrand h lo hi) = Inr (lo + uint (snd (rdrand_stub h k)) mod (hi - lo + 1))
             \<and> lo \<le> lo + uint (snd (rdrand_stub h k)) mod (hi - lo + 1)
             \<and> lo + uint (snd (rdrand_stub h k)) mod (hi - lo + 1) \<le> hi))
    \<and> (os_urandom h = Inl e \<longrightarrow>
          rng2024_generate_crypto_hardware_random h lo hi
            = ([Call_urandom 8, Call_print], Inr None))"
proof -
  note bounds = map_range_in_range(2,3) [OF assms]
  have d: "rng2024_generate_crypto_hardware_random h lo hi
            = ([Call_urandom 8, Call_print], Inr None)"
    if "os_urandom h = Inl e"
    using that by (simp add: rng2024_generate_crypto_hardware_random_def)
  from entropy_pool_outcome [OF assms, of h] bounds
  have a: "(\<exists>e. snd (entropy_pool h lo hi) = Inl e)
       \<or> (\<exists>bs raw. os_urandom h = Inr bs \<and> unpack_Q h bs = Inr raw
             \<and> snd (entropy_pool h lo hi) = Inr (lo + raw mod (hi - lo + 1))
             \<and> lo \<le> lo + raw mod (hi - lo + 1) \<and> lo + raw mod (hi - lo + 1) \<le> hi)"
    by blast
  from crypto_api_outcome [OF assms, of h] bounds
  have b: "(\<exists>e. snd (crypto_api h lo hi) = Inl e)
       \<or> (\<exists>raw. platform_system h = ''Windows'' \<and> CryptAcquireContextW h \<noteq> 0
             \<and> fst (CryptGenRandom h) \<noteq> 0 \<and> unpack_Q h (snd (CryptGenRandom h)) = Inr raw
             \<and> snd (crypto_api h lo hi) = Inr (lo + raw mod (hi - lo + 1))
             \<and> lo \<le> lo + raw mod (hi - lo + 1) \<and> lo + raw mod (hi - lo + 1) \<le> hi)"
    by blast
  from rdrand_outcome [OF assms, of h] bounds
  have c: "(\<exists>e. snd (rdrand h lo hi) = Inl e)
       \<or> (\<exists>k<10. snd (supports_rdrand h) \<and> VirtualAlloc h 0 \<noteq> 0 \<and> fst (rdrand_stub h k)
             \<and> snd (rdrand h lo hi) = Inr (lo + uint (snd (rdrand_stub h k)) mod (hi - lo + 1))
             \<and> lo \<le> lo + uint (snd (rdrand_stub h k)) mod (hi - lo + 1)
             \<and> lo + uint (snd (rdrand_stub h k)) mod (hi - lo + 1) \<le> hi)"
    by blast
  from a b c d show ?thesis by blast
qed

theorem C6_witness:
  "(1::int) < 100
   \<and> os_urandom no_urandom_host = Inl (OSError ''urandom unavailable'')
   \<and> (\<exists>e. snd (entropy_pool no_urandom_host 1 100) = Inl e)
   \<and> snd (rng2024_generate_crypto_hardware_random no_urandom_host 1 100) = Inr None
   \<and> ((\<exists>e. snd (crypto_api no_context_host 1 100) = Inl e)
      \<or> (\<exists>raw. unpack_Q no_context_host (snd (CryptGenRandom no_context_host)) = Inr raw
            \<and> snd (crypto_api no_context_host 1 100) = Inr (1 + raw mod 100)))"
proof -
  have lt: "(1::int) < 100" by simp
  have fails: "os_urandom no_urandom_host = Inl (OSError ''urandom unavailable'')"
    by (simp add: no_urandom_host_def linux_host_def windows_host_def)
  from C6_no_sentinel_results [OF lt, of no_urandom_host "OSError ''urandom unavailable''"] fails
  have a: "(\<exists>e. snd (entropy_pool no_urandom_host 1 100) = Inl e)
     \<and> snd (rng2024_generate_crypto_hardware_random no_urandom_host 1 100) = Inr None"
    by auto
  from C6_no_sentinel_results [OF lt, of no_context_host]
  have b: "(\<exists>e. snd (crypto_api no_context_host 1 100) = Inl e)
      \<or> (\<exists>raw. unpack_Q no_context_host (snd (CryptGenRandom no_context_host)) = Inr raw
            \<and> snd (crypto_api no_context_host 1 100) = Inr (1 + raw mod 100))"
    by auto
  from lt fails a b show ?thesis by blast
qed

text \<open>The archived generator returns \<^verbatim>\<open>None\<close> when \<^verbatim>\<open>os.urandom\<close> raises.\<close>

theorem C6_counterexample:
  "(1::int) < 100
   \<and> rng2024_generate_crypto_hardware_random no_urandom_host 1 100
        = ([Call_urandom 8, Call_print], Inr None)"
  by (simp add: rng2024_generate_crypto_hardware_random_def no_urandom_host_def
        linux_host_def windows_host_def)

text \<open>The archived GUI method computes \<^verbatim>\<open>random_number\<close> and ends without returning
  it.\<close>

lemma gui2024_crypto_returns_None:
  "CryptAcquireContextW h \<noteq> 0 \<Longrightarrow> fst (CryptGenRandom h) \<noteq> 0 \<Longrightarrow>
   platform_system h = ''Windows'' \<Longrightarrow>
   snd (gui2024_generate_crypto_hardware_random h lo hi) = Inr None"
  by (simp add: gui2024_generate_crypto_hardware_random_def)

subsection \<open>No fallback between entropy sources\<close>

text \<open>
  C7 (as the code has it).  A call of \<^verbatim>\<open>rdrand\<close> makes no call other than the
  CPU-feature query, the allocation, the copy of the stub and the invocations of
  the stub: it never reads the entropy pool and never calls the crypto API.  When
  the hardware path fails (unsupported host, failed allocation, ten failed
  attempts) that error is the result of the call.  The archived
  \<^verbatim>\<open>RandomNumberGeneratorGUI.generate_amd_hardware_random\<close> is different: on Windows,
  when its first RDRAND attempt fails, it logs the error, calls \<^verbatim>\<open>CryptGenRandom\<close>
  and returns a value mapped from that buffer.
\<close>

theorem C7_no_fallback_in_rdrand:
  "set (fst (rdrand h lo hi)) \<subseteq>
     {Call_IsProcessorFeaturePresent PF_RDRAND_AVAILABLE,
      Call_VirtualAlloc (length rdrand_code), Call_memmove, Call_rdrand_step}
   \<and> (\<not> snd (supports_rdrand h) \<longrightarrow>
        snd (rdrand h lo hi) = Inl (OSError ''RDRAND not supported on this CPU/OS''))
   \<and> (snd (supports_rdrand h) \<and> lo < hi \<and> VirtualAlloc h 0 = 0 \<longrightarrow>
        snd (rdrand h lo hi) = Inl (OSError ''VirtualAlloc failed''))
   \<and> (snd (supports_rdrand h) \<and> lo < hi \<and> VirtualAlloc h 0 \<noteq> 0
        \<and> (\<forall>j<10. \<not> fst (rdrand_stub h j)) \<longrightarrow>
        snd (rdrand h lo hi) = Inl (RuntimeError ''RDRAND returned CF=0 ten times''))
   \<and> (platform_system h = ''Windows'' \<and> lo < hi
        \<and> (VirtualAlloc h 0 = 0 \<or> fst (amd_rdrand h 0) \<noteq> SECRNG_SUCCESS)
        \<and> length (snd (CryptGenRandom h)) = 8 \<longrightarrow>
        Call_CryptGenRandom \<in> set (fst (gui2024_generate_amd_hardware_random h lo hi))
        \<and> (\<exists>raw. unpack_Q h (snd (CryptGenRandom h)) = Inr raw
             \<and> snd (gui2024_generate_amd_hardware_random h lo hi)
                  = Inr (Some (lo + raw mod (hi - lo + 1)))))"
proof -
  have trace: "set (fst (rdrand h lo hi)) \<subseteq>
     {Call_IsProcessorFeaturePresent PF_RDRAND_AVAILABLE,
      Call_VirtualAlloc (length rdrand_code), Call_memmove, Call_rdrand_step}"
  proof (cases "snd (supports_rdrand h) \<and> lo < hi \<and> VirtualAlloc h 0 \<noteq> 0")
    case True
    obtain m where
      "fst (rdrand_loop (rdrand_stub h) lo hi 0 10) = replicate m Call_rdrand_step"
      using rdrand_loop_trace [of 10 "rdrand_stub h" lo hi 0] by blast
    with True rdrand_reaches_loop [of h lo hi] show ?thesis by auto
  next
    case False
    then consider "\<not> snd (supports_rdrand h)" | "snd (supports_rdrand h)" "hi \<le> lo"
      | "snd (supports_rdrand h)" "lo < hi" "VirtualAlloc h 0 = 0"
      by linarith
    then show ?thesis
    proof cases
      case 1
      then show ?thesis by (auto simp: rdrand_unsupported supports_rdrand_trace)
    next
      case 2
      then show ?thesis by (auto simp: rdrand_bad_range supports_rdrand_trace)
    next
      case 3
      then show ?thesis by (simp add: rdrand_no_alloc)
    qed
  qed
  have unsup: "snd (rdrand h lo hi) = Inl (OSError ''RDRAND not supported on this CPU/OS'')"
    if "\<not> snd (supports_rdrand h)"
    using rdrand_unsupported [OF that] by simp
  have noalloc: "snd (rdrand h lo hi) = Inl (OSError ''VirtualAlloc failed'')"
    if "snd (supports_rdrand h)" "lo < hi" "VirtualAlloc h 0 = 0"
    using rdrand_no_alloc [OF that] by simp
  have exhausted: "snd (rdrand h lo hi) = Inl (RuntimeError ''RDRAND returned CF=0 ten times'')"
    if reach: "snd (supports_rdrand h)" "lo < hi" "VirtualAlloc h 0 \<noteq> 0"
      and none: "\<forall>j<10. \<not> fst (rdrand_stub h j)"
  proof -
    from none have "rdrand_loop (rdrand_stub h) lo hi 0 10 =
       (replicate 10 Call_rdrand_step, Inl (RuntimeError ''RDRAND returned CF=0 ten times''))"
      by (intro rdrand_loop_exhaust) simp
    with rdrand_reaches_loop [OF reach] show ?thesis by simp
  qed
  have archive: "Call_CryptGenRandom \<in> set (fst (gui2024_generate_amd_hardware_random h lo hi))
        \<and> (\<exists>raw. unpack_Q h (snd (CryptGenRandom h)) = Inr raw
             \<and> snd (gui2024_generate_amd_hardware_random h lo hi)
                  = Inr (Some (lo + raw mod (hi - lo + 1))))"
    if win: "platform_system h = ''Windows''" and lt: "lo < hi"
      and fails: "VirtualAlloc h 0 = 0 \<or> fst (amd_rdrand h 0) \<noteq> SECRNG_SUCCESS"
      and len: "length (snd (CryptGenRandom h)) = 8"
  proof -
    have "\<exists>t0 e. amd_attempt h lo hi 0 = (t0, Inl e)"
    proof (cases "VirtualAlloc h 0 = 0")
      case True
      with win show ?thesis
        by (simp add: amd_attempt_def get_rdrand64u_def gui2024_setup_asm_function_def)
    next
      case False
      with fails have "fst (amd_rdrand h 0) \<noteq> SECRNG_SUCCESS" by simp
      with win False show ?thesis
        by (cases "amd_rdrand h 0")
          (simp add: amd_attempt_def get_rdrand64u_def gui2024_setup_asm_function_def)
    qed
    then obtain t0 e where first: "amd_attempt h lo hi 0 = (t0, Inl e)" by blast
    from len obtain raw where raw: "unpack_Q h (snd (CryptGenRandom h)) = Inr raw"
      by (simp add: unpack_Q_def)
    with win map_range_in_range(1) [OF lt, of raw]
    have second: "amd_crypt_fallback h lo hi =
        ([Call_CryptGenRandom], Inr (lo + raw mod (hi - lo + 1)))"
      by (simp add: amd_crypt_fallback_def)
    from first second raw show ?thesis
      by (simp add: gui2024_generate_amd_hardware_random_def)
  qed
  from trace unsup noalloc exhausted archive show ?thesis by blast
qed

theorem C7_witness:
  "snd (supports_rdrand busy_rdrand_host) \<and> (1::int) < 100
   \<and> VirtualAlloc busy_rdrand_host 0 \<noteq> 0
   \<and> snd (rdrand busy_rdrand_host 1 100) = Inl (RuntimeError ''RDRAND returned CF=0 ten times'')
   \<and> Call_CryptGenRandom \<notin> set (fst (rdrand busy_rdrand_host 1 100))
   \<and> \<not> snd (supports_rdrand linux_host)
   \<and> snd (rdrand linux_host 1 100) = Inl (OSError ''RDRAND not supported on this CPU/OS'')
   \<and> snd (supports_rdrand no_alloc_host) \<and> VirtualAlloc no_alloc_host 0 = 0
   \<and> snd (rdrand no_alloc_host 1 100) = Inl (OSError ''VirtualAlloc failed'')
   \<and> Call_CryptGenRandom \<in> set (fst (gui2024_generate_amd_hardware_random windows_host 1 100))"
proof -
  have h1: "snd (supports_rdrand busy_rdrand_host) \<and> (1::int) < 100
      \<and> VirtualAlloc busy_rdrand_host 0 \<noteq> 0
      \<and> (\<forall>j<10. \<not> fst (rdrand_stub busy_rdrand_host j))"
    by (simp add: busy_rdrand_host_def windows_host_def supports_rdrand_def)
  have h2: "\<not> snd (supports_rdrand linux_host)"
    by (simp add: linux_host_def windows_host_def supports_rdrand_def)
  have h3: "snd (supports_rdrand no_alloc_host) \<and> VirtualAlloc no_alloc_host 0 = 0"
    by (simp add: no_alloc_host_def windows_host_def supports_rdrand_def)
  have h4: "platform_system windows_host = ''Windows''
      \<and> fst (amd_rdrand windows_host 0) \<noteq> SECRNG_SUCCESS
      \<and> length (snd (CryptGenRandom windows_host)) = 8"
    by (simp add: windows_host_def SECRNG_SUCCESS_def)
  from C7_no_fallback_in_rdrand [of busy_rdrand_host 1 100] h1
  have a: "snd (rdrand busy_rdrand_host 1 100)
        = Inl (RuntimeError ''RDRAND returned CF=0 ten times'')
     \<and> Call_CryptGenRandom \<notin> set (fst (rdrand busy_rdrand_host 1 100))"
    by auto
  from C7_no_fallback_in_rdrand [of linux_host 1 100] h2
  have b: "snd (rdrand linux_host 1 100) = Inl (OSError ''RDRAND not supported on this CPU/OS'')"
    by blast
  from C7_no_fallback_in_rdrand [of no_alloc_host 1 100] h3
  have c: "snd (rdrand no_alloc_host 1 100) = Inl (OSError ''VirtualAlloc failed'')"
    by simp
  from C7_no_fallback_in_rdrand [of windows_host 1 100] h4
  have d: "Call_CryptGenRandom \<in> set (fst (gui2024_generate_amd_hardware_random windows_host 1 100))"
    by simp
  from h1 h2 h3 a b c d show ?thesis by blast
qed

text \<open>The archived AMD generator, its stub reporting failure, answers from
  \<^verbatim>\<open>CryptGenRandom\<close>.\<close>

theorem C7_counterexample:
  "fst (amd_rdrand windows_host 0) \<noteq> SECRNG_SUCCESS
   \<and> gui2024_generate_amd_hardware_random windows_host 1 100
       = ([Call_VirtualAlloc 14, Call_memmove, Call_rdrand_step, Call_log_error,
           Call_CryptGenRandom], Inr (Some 10))"
  by (simp add: gui2024_generate_amd_hardware_random_def amd_attempt_def get_rdrand64u_def
        gui2024_setup_asm_function_def amd_crypt_fallback_def amd_code_def unpack_Q_def
        from_bytes_big_def map_range_def SECRNG_SUCCESS_def windows_host_def)

end
